theory Spec2Isabelle
  imports Main "HOL-Library.Word" "HOL-Library.Signed_Division"
begin

unbundle bit_operations_syntax

section \<open>Data model of the Windows platform layer (src/windows/platform.c)\<close>

text \<open>
  Handles and addresses are natural numbers; 0 is \<open>NULL\<close>. A \<open>DWORD\<close> is a 32-bit
  unsigned word. The fields of \<open>struct timespec\<close> are signed integers.
\<close>

type_synonym handle = nat
type_synonym ptr = nat
type_synonym dword = "32 word"

record timespec =
  tv_sec :: int
  tv_nsec :: int

text \<open>\<open>struct event_buf\<close>, the per-thread buffer \<open>iocp_buf\<close> between wait and copyout.\<close>

record event_buf =
  bytes :: dword
  key :: nat
  overlap :: ptr

definition event_buf_zero :: event_buf where
  "event_buf_zero = \<lparr>bytes = 0, key = 0, overlap = 0\<rparr>"

section \<open>Events, knotes, filters and the kqueue\<close>

text \<open>
  Modelled from the spec: \<open>struct kevent\<close> of the public header, the tuple
  \<open>(ident, filter, flags, fflags, data, udata)\<close>. The filter tag is a signed integer
  (promoted to \<open>int\<close> wherever the source computes with it), the flags are a 16-bit
  mask. The field \<open>filter\<close> is named \<open>filter_tag\<close> here.
\<close>

record kevent =
  ident :: nat
  filter_tag :: int
  flags :: "16 word"
  fflags :: "32 word"
  data :: int
  udata :: nat

text \<open>
  Modelled from the spec: the numeric values of the flags and of the filter tag that
  the results below name, \<open>EV_ONESHOT=0x0010\<close>, \<open>EV_DISPATCH=0x0080\<close>,
  \<open>EVFILT_READ=-1\<close>.
\<close>

definition EV_ONESHOT :: "16 word" where
  "EV_ONESHOT = 0x0010"

definition EV_DISPATCH :: "16 word" where
  "EV_DISPATCH = 0x0080"

definition EVFILT_READ :: int where
  "EVFILT_READ = -1"

text \<open>
  Modelled from the spec: \<open>struct knote\<close>, whose declaration is not in platform.c. The
  source uses its field \<open>kev\<close>, the registered event; the state enabled/disabled and
  the binding to the backing OS resource follow the specification's data model.
\<close>

record knote =
  kev :: kevent
  kn_enabled :: bool
  kn_resource :: handle

text \<open>
  A filter of the table \<open>kq_filt\<close>. Its \<open>kf_copyout\<close> is a function pointer: in C it
  receives the address of the event-list slot, the knote and the wait buffer, writes
  the slot, may update the knote and returns an \<open>int\<close>. Here it maps the old content
  of the slot (\<open>None\<close> when the address it is handed holds no slot), the knote and the
  buffer to the return value, the new content of the slot and the new knote.
\<close>

record kfilter =
  kf_id :: int
  kf_copyout :: "kevent option \<Rightarrow> knote \<Rightarrow> event_buf \<Rightarrow> int \<times> kevent \<times> knote"

text \<open>
  The kqueue: the completion port, the semaphore for synthetic events, the event loop
  \<open>kq_loop\<close>, the filter table, and the store of its knotes, a map from the address
  of a knote to the knote.
\<close>

record kqueue =
  kq_iocp :: handle
  kq_synthetic_event :: handle
  kq_loop :: handle
  kq_filt :: "kfilter list"
  kq_knotes :: "ptr \<rightharpoonup> knote"

text \<open>
  The ways the process stops instead of returning: \<open>abort()\<close>, and a fault where C
  dereferences an invalid pointer or indexes outside an array.
\<close>

datatype error = Abort | Fault

text \<open>
  Dereferencing a knote pointer. \<open>NULL\<close> and an address that holds no knote are
  invalid accesses, undefined in C; the model renders them as a fault.
\<close>

definition deref :: "kqueue \<Rightarrow> ptr \<Rightarrow> knote option" where
  "deref kq p = (if p = 0 then None else kq_knotes kq p)"

text \<open>
  Line 189, \<open>&kq->kq_filt[~(kn->kev.filter)]\<close>: the index is the bitwise complement of
  the filter tag; outside the table there is no filter.
\<close>

definition filter_index :: "int \<Rightarrow> int" where
  "filter_index f = NOT f"

definition owning_filter :: "kqueue \<Rightarrow> knote \<Rightarrow> kfilter option" where
  "owning_filter kq kn =
     (let i = filter_index (filter_tag (kev kn))
      in if 0 \<le> i \<and> i < int (length (kq_filt kq)) then Some (kq_filt kq ! nat i) else None)"

text \<open>
  Modelled from the spec: \<open>knote_disable\<close>, a helper of the common knote store, which
  platform.c calls and does not define. Disabling flips the knote to disabled and keeps
  its resource.
\<close>

definition knote_disable :: "ptr \<Rightarrow> kqueue \<Rightarrow> kqueue" where
  "knote_disable p kq =
     (case kq_knotes kq p of
        None \<Rightarrow> kq
      | Some kn \<Rightarrow> kq\<lparr>kq_knotes := (kq_knotes kq)(p \<mapsto> kn\<lparr>kn_enabled := False\<rparr>)\<rparr>)"

text \<open>
  Modelled from the spec: \<open>knote_delete\<close>, a helper of the common knote store, which
  platform.c calls and does not define. Deleting removes the knote from the store.
\<close>

definition knote_delete :: "ptr \<Rightarrow> kqueue \<Rightarrow> kqueue" where
  "knote_delete p kq = kq\<lparr>kq_knotes := (kq_knotes kq)(p := None)\<rparr>"

section \<open>The wait phase: \<open>windows_kevent_wait\<close>\<close>

text \<open>The values of \<open>INFINITE\<close> and \<open>WAIT_TIMEOUT\<close> in the Windows headers.\<close>

definition INFINITE :: dword where
  "INFINITE = 0xFFFFFFFF"

definition WAIT_TIMEOUT :: dword where
  "WAIT_TIMEOUT = 258"

text \<open>
  Lines 128 to 136 of \<open>windows_kevent_wait\<close>: the conversion of the caller's timeout
  to the milliseconds handed to the OS wait. \<open>None\<close> is the \<open>NULL\<close> timeout. Both
  \<open>if\<close> statements of the source test \<open>tv_sec\<close>; the first divides the seconds,
  cast to \<open>DWORD\<close>, by 1000 (unsigned division), the second adds the nanoseconds
  divided by 1000000 (signed C division, which truncates) to the \<open>DWORD\<close> sum.
\<close>

definition timeout_to_ms :: "timespec option \<Rightarrow> dword" where
  "timeout_to_ms timeout =
     (case timeout of
        None \<Rightarrow> INFINITE
      | Some ts \<Rightarrow>
          (let ms0 = (0 :: dword);
               ms1 = (if tv_sec ts > 0 then ms0 + (word_of_int (tv_sec ts) :: dword) div 1000 else ms0);
               ms2 = (if tv_sec ts > 0 then ms1 + word_of_int (tv_nsec ts sdiv 1000000) else ms1)
           in ms2))"

text \<open>
  What \<open>GetQueuedCompletionStatus\<close> reports: whether a completion packet was dequeued,
  the packet, and the value \<open>GetLastError\<close> returns afterwards. The OS call itself is a
  parameter of the model, applied to the port and the timeout in milliseconds.
\<close>

record gqcs_result =
  success :: bool
  packet :: event_buf
  last_error :: dword

text \<open>
  \<open>windows_kevent_wait\<close>: returns the C return value and the new content of
  \<open>iocp_buf\<close> (zeroed by \<open>memset\<close>, then filled in by the OS call).
\<close>

definition windows_kevent_wait ::
  "(handle \<Rightarrow> dword \<Rightarrow> gqcs_result) \<Rightarrow> kqueue \<Rightarrow> int \<Rightarrow> timespec option \<Rightarrow> int \<times> event_buf" where
  "windows_kevent_wait GetQueuedCompletionStatus kq no timeout =
     (let timeout_ms = timeout_to_ms timeout;
          r = GetQueuedCompletionStatus (kq_iocp kq) timeout_ms
      in if success r then (1, packet r)
         else if last_error r = WAIT_TIMEOUT then (0, packet r)
         else (-1, packet r))"

text \<open>
  The duration the claim describes, in the spec's words: \<open>tv_sec\<close> seconds plus
  \<open>tv_nsec\<close> nanoseconds, in milliseconds.
\<close>

definition spec_timeout_ms :: "timespec \<Rightarrow> int" where
  "spec_timeout_ms ts = tv_sec ts * 1000 + tv_nsec ts div 1000000"

section \<open>The copyout phase: \<open>windows_kevent_copyout\<close>\<close>

text \<open>
  The event list is the caller's buffer, a list of slots. The source hands its address
  to the filter and afterwards reads and writes only its first slot.
\<close>

definition first_slot :: "kevent list \<Rightarrow> kevent option" where
  "first_slot eventlist = (case eventlist of [] \<Rightarrow> None | slot # rest \<Rightarrow> Some slot)"

text \<open>
  \<open>windows_kevent_copyout\<close>. The per-thread \<open>iocp_buf\<close> is passed explicitly. The
  pointer in the buffer is cast to a knote and dereferenced unchecked (lines 187 to
  189). The filter's copyout is called and a negative return aborts (lines 190 to
  196) before the source reads the event list itself (line 204), which is a fault on
  a buffer without a slot. The knote locks have no effect in this sequential model.
  The result is the return value, the buffer and the kqueue afterwards.
\<close>

definition windows_kevent_copyout ::
  "kqueue \<Rightarrow> event_buf \<Rightarrow> int \<Rightarrow> kevent list \<Rightarrow> int \<Rightarrow> error + (int \<times> kevent list \<times> kqueue)" where
  "windows_kevent_copyout kq iocp_buf nready eventlist nevents =
     (let p = overlap iocp_buf in
      case deref kq p of
        None \<Rightarrow> Inl Fault
      | Some kn \<Rightarrow>
          (case owning_filter kq kn of
             None \<Rightarrow> Inl Fault
           | Some filt \<Rightarrow>
               (case kf_copyout filt (first_slot eventlist) kn iocp_buf of
                  (rv, ev, kn') \<Rightarrow>
                    if rv < 0 then Inl Abort
                    else
                      (case eventlist of
                         [] \<Rightarrow> Inl Fault
                       | slot # rest \<Rightarrow>
                           (let kq1 = kq\<lparr>kq_knotes := (kq_knotes kq)(p \<mapsto> kn')\<rparr>;
                                nret = (1 :: int);
                                kq2 = (if flags ev AND EV_DISPATCH \<noteq> 0
                                       then knote_disable p kq1 else kq1);
                                kq3 = (if flags ev AND EV_ONESHOT \<noteq> 0
                                       then knote_delete p kq2 else kq2);
                                nret' = (if filter_tag ev \<noteq> 0 then nret else nret - 1)
                            in Inr (nret', ev # rest, kq3))))))"

text \<open>
  A kqueue lives through a sequence of copyout calls, one per wake, each with the
  caller's event buffer. \<open>deliveries p kq wakes\<close> counts the events delivered for the
  knote at address \<open>p\<close> over such a sequence, in which no knote is registered between
  the calls; once the process aborts or faults nothing more is delivered.
\<close>

fun deliveries :: "ptr \<Rightarrow> kqueue \<Rightarrow> (event_buf \<times> kevent list) list \<Rightarrow> nat" where
  "deliveries p kq [] = 0"
| "deliveries p kq ((b, evl) # ws) =
     (case windows_kevent_copyout kq b 1 evl (int (length evl)) of
        Inl e \<Rightarrow> 0
      | Inr (n, evl', kq') \<Rightarrow> (if overlap b = p then nat n else 0) + deliveries p kq' ws)"

text \<open>A knote carries a flag when the bit is set in the flags of its registered event.\<close>

definition carries :: "16 word \<Rightarrow> knote \<Rightarrow> bool" where
  "carries flag kn = (flags (kev kn) AND flag \<noteq> 0)"

text \<open>
  Lines 204 to 207 taken alone: what the flags of the event in the first slot do to
  the knote at \<open>p\<close>.
\<close>

definition after_flags :: "kevent \<Rightarrow> ptr \<Rightarrow> kqueue \<Rightarrow> kqueue" where
  "after_flags ev p kq =
     (let kq2 = (if flags ev AND EV_DISPATCH \<noteq> 0 then knote_disable p kq else kq)
      in if flags ev AND EV_ONESHOT \<noteq> 0 then knote_delete p kq2 else kq2)"

section \<open>Creating and freeing a kqueue: \<open>windows_kqueue_init\<close>, \<open>windows_kqueue_free\<close>\<close>

text \<open>
  The calls by which the platform layer gives something back, in program order:
  \<open>evt_destroy\<close> on an event loop and \<open>free\<close> of the kqueue object.
\<close>

datatype os_call = Evt_destroy handle | Free_kqueue



text \<open>
  \<open>windows_kqueue_init\<close>. The outcomes of \<open>CreateIoCompletionPort\<close> and
  \<open>CreateSemaphore\<close> (a handle, \<open>NULL\<close> on failure) and the function
  \<open>filter_register_all\<close>, which is not defined in platform.c, are parameters;
  \<open>filter_register_all\<close> returns its status and the filter table it has filled in.
  The result is the return value, the kqueue as the call leaves it, and the calls that
  give something back (line 105).
\<close>

definition windows_kqueue_init ::
  "handle \<Rightarrow> handle \<Rightarrow> (kqueue \<Rightarrow> int \<times> kfilter list) \<Rightarrow> kqueue \<Rightarrow> int \<times> kqueue \<times> os_call list" where
  "windows_kqueue_init CreateIoCompletionPort CreateSemaphore filter_register_all kq =
     (let kq1 = kq\<lparr>kq_iocp := CreateIoCompletionPort\<rparr> in
      if kq_iocp kq1 = 0 then (-1, kq1, [])
      else
        (let kq2 = kq1\<lparr>kq_synthetic_event := CreateSemaphore\<rparr> in
         if kq_synthetic_event kq2 = 0 then (-1, kq2, [])
         else
           (case filter_register_all kq2 of
              (rv, tbl) \<Rightarrow>
                (let kq3 = kq2\<lparr>kq_filt := tbl\<rparr> in
                 if rv < 0 then (-1, kq3, [Evt_destroy (kq_loop kq3)])
                 else (0, kq3, [])))))"

text \<open>
  Modelled from the spec: the public \<open>kqueue()\<close> of the common layer, which is not in
  platform.c: it "returns a descriptor or -1". It runs the platform's initialisation
  and hands out the descriptor \<open>fd\<close> allocated for the new kqueue unless the
  initialisation failed.
\<close>

definition kqueue_call ::
  "int \<Rightarrow> handle \<Rightarrow> handle \<Rightarrow> (kqueue \<Rightarrow> int \<times> kfilter list) \<Rightarrow> kqueue \<Rightarrow> int" where
  "kqueue_call fd CreateIoCompletionPort CreateSemaphore filter_register_all kq =
     (if fst (windows_kqueue_init CreateIoCompletionPort CreateSemaphore filter_register_all kq) < 0
      then -1 else fd)"


section \<open>Peer-close detection\<close>





section \<open>Concrete inputs\<close>

text \<open>
  A knote registered with \<open>EV_ADD | EV_ONESHOT | EV_DISPATCH\<close> under a given filter
  tag, one registered with \<open>EV_ADD | EV_DISPATCH\<close> for the read filter, and a table
  of three filters: slot 0 delivers the registered event, slot 1 fails and leaves the event-list
  slot as it was, slot 2 yields the empty event. \<open>bare_kq\<close> holds the first knote under a read filter that delivers
  the registered event with its flags cleared. \<open>unreadable_env\<close> is an OS on which
  the surviving end of the socket pair reports nothing after the close.
\<close>

definition kevent_zero :: kevent where
  "kevent_zero = \<lparr>ident = 0, filter_tag = 0, flags = 0, fflags = 0, data = 0, udata = 0\<rparr>"

definition example_kn :: "int \<Rightarrow> knote" where
  "example_kn tag =
     \<lparr>kev = \<lparr>ident = 5, filter_tag = tag, flags = 0x0091, fflags = 0, data = 0, udata = 0\<rparr>,
      kn_enabled = True, kn_resource = 7\<rparr>"

definition example_filters :: "kfilter list" where
  "example_filters =
     [\<lparr>kf_id = -1, kf_copyout = (\<lambda>slot kn b. (0, kev kn, kn))\<rparr>,
      \<lparr>kf_id = -2,
        kf_copyout = (\<lambda>slot kn b. (-1, (case slot of None \<Rightarrow> kevent_zero | Some ev \<Rightarrow> ev), kn))\<rparr>,
      \<lparr>kf_id = -3, kf_copyout = (\<lambda>slot kn b. (0, kevent_zero, kn))\<rparr>]"

definition example_kq :: "int \<Rightarrow> kqueue" where
  "example_kq tag =
     \<lparr>kq_iocp = 3, kq_synthetic_event = 4, kq_loop = 0, kq_filt = example_filters,
      kq_knotes = [1 \<mapsto> example_kn tag]\<rparr>"

definition dispatch_kn :: knote where
  "dispatch_kn =
     \<lparr>kev = \<lparr>ident = 6, filter_tag = -1, flags = 0x0081, fflags = 0, data = 0, udata = 0\<rparr>,
      kn_enabled = True, kn_resource = 8\<rparr>"

definition dispatch_kq :: kqueue where
  "dispatch_kq =
     \<lparr>kq_iocp = 3, kq_synthetic_event = 4, kq_loop = 0, kq_filt = example_filters,
      kq_knotes = [1 \<mapsto> dispatch_kn]\<rparr>"

definition bare_kq :: kqueue where
  "bare_kq =
     \<lparr>kq_iocp = 3, kq_synthetic_event = 4, kq_loop = 0,
      kq_filt = [\<lparr>kf_id = -1, kf_copyout = (\<lambda>slot kn b. (0, (kev kn)\<lparr>flags := 0\<rparr>, kn))\<rparr>],
      kq_knotes = [1 \<mapsto> example_kn (-1)]\<rparr>"

definition example_buf :: event_buf where
  "example_buf = \<lparr>bytes = 0, key = 0, overlap = 1\<rparr>"



section \<open>Auxiliary facts\<close>

lemma filter_index_eq: "filter_index f = - f - 1"
  by (simp add: filter_index_def not_int_def)

lemma owning_filter_eq:
  "owning_filter kq kn =
     (if filter_tag (kev kn) < 0 \<and> - filter_tag (kev kn) \<le> int (length (kq_filt kq))
      then Some (kq_filt kq ! nat (- filter_tag (kev kn) - 1)) else None)"
  by (auto simp: owning_filter_def filter_index_eq Let_def)

lemma copyout_call:
  assumes "deref kq (overlap b) = Some kn" and "owning_filter kq kn = Some filt"
    and "kf_copyout filt (first_slot evl) kn b = (rv, ev, kn')"
  shows "windows_kevent_copyout kq b nready evl nevents =
     (if rv < 0 then Inl Abort
      else case evl of
        [] \<Rightarrow> Inl Fault
      | slot # rest \<Rightarrow>
          Inr (if filter_tag ev \<noteq> 0 then 1 else 0, ev # rest,
               after_flags ev (overlap b) (kq\<lparr>kq_knotes := (kq_knotes kq)(overlap b \<mapsto> kn')\<rparr>)))"
  using assms
  by (simp add: windows_kevent_copyout_def after_flags_def Let_def split: list.splits)

lemma copyout_step:
  assumes "deref kq (overlap b) = Some kn" and "owning_filter kq kn = Some filt"
    and "kf_copyout filt (Some slot) kn b = (rv, ev, kn')"
  shows "windows_kevent_copyout kq b nready (slot # rest) nevents =
     (if rv < 0 then Inl Abort
      else Inr (if filter_tag ev \<noteq> 0 then 1 else 0, ev # rest,
                after_flags ev (overlap b) (kq\<lparr>kq_knotes := (kq_knotes kq)(overlap b \<mapsto> kn')\<rparr>)))"
  using assms(3) by (simp add: copyout_call [OF assms(1,2), where evl = "slot # rest"] first_slot_def)

lemma copyout_InrE:
  assumes "windows_kevent_copyout kq b nready evl nevents = Inr (n, evl', kq')"
  obtains kn filt slot rest rv ev kn' where
    "deref kq (overlap b) = Some kn" "owning_filter kq kn = Some filt" "evl = slot # rest"
    "kf_copyout filt (Some slot) kn b = (rv, ev, kn')" "0 \<le> rv"
    "n = (if filter_tag ev \<noteq> 0 then 1 else 0)" "evl' = ev # rest"
    "kq' = after_flags ev (overlap b) (kq\<lparr>kq_knotes := (kq_knotes kq)(overlap b \<mapsto> kn')\<rparr>)"
proof -
  from assms obtain kn where kn: "deref kq (overlap b) = Some kn"
    by (cases "deref kq (overlap b)") (simp_all add: windows_kevent_copyout_def Let_def)
  from assms kn obtain filt where filt: "owning_filter kq kn = Some filt"
    by (cases "owning_filter kq kn") (simp_all add: windows_kevent_copyout_def Let_def)
  obtain rv ev kn' where c: "kf_copyout filt (first_slot evl) kn b = (rv, ev, kn')"
    by (cases "kf_copyout filt (first_slot evl) kn b") auto
  note r = assms [unfolded copyout_call [OF kn filt c]]
  from r have rv: "0 \<le> rv" by (cases "rv < 0") simp_all
  from r rv obtain slot rest where evl: "evl = slot # rest"
    by (cases evl) simp_all
  from c have c': "kf_copyout filt (Some slot) kn b = (rv, ev, kn')"
    by (simp add: evl first_slot_def)
  from r rv evl that [OF kn filt evl c' rv] show thesis by simp
qed

lemma after_flags_other: "q \<noteq> p \<Longrightarrow> kq_knotes (after_flags ev p kq) q = kq_knotes kq q"
  by (simp add: after_flags_def knote_disable_def knote_delete_def Let_def split: option.splits)

lemma after_flags_self:
  "kq_knotes kq p = Some k \<Longrightarrow>
   kq_knotes (after_flags ev p kq) p =
     (if flags ev AND EV_ONESHOT \<noteq> 0 then None
      else if flags ev AND EV_DISPATCH \<noteq> 0 then Some (k\<lparr>kn_enabled := False\<rparr>)
      else Some k)"
  by (simp add: after_flags_def knote_disable_def knote_delete_def Let_def)

text \<open>
  A wake whose knote and filter are found and whose filter yields the empty event
  (filter tag 0) is not counted: the copyout returns 0.
\<close>

lemma empty_event_discarded:
  assumes "deref kq (overlap b) = Some kn" and "owning_filter kq kn = Some filt"
    and "kf_copyout filt (Some slot) kn b = (rv, ev, kn')" and "0 \<le> rv" and "filter_tag ev = 0"
  shows "\<exists>kq'. windows_kevent_copyout kq b nready (slot # rest) nevents = Inr (0, ev # rest, kq')"
  using assms(4,5) by (simp add: copyout_step [OF assms(1-3)])

lemma init_cases:
  "windows_kqueue_init iocp sem reg kq =
     (if iocp = 0 then (-1, kq\<lparr>kq_iocp := iocp\<rparr>, [])
      else if sem = 0 then (-1, kq\<lparr>kq_iocp := iocp, kq_synthetic_event := sem\<rparr>, [])
      else if fst (reg (kq\<lparr>kq_iocp := iocp, kq_synthetic_event := sem\<rparr>)) < 0
        then (-1, kq\<lparr>kq_iocp := iocp, kq_synthetic_event := sem,
                      kq_filt := snd (reg (kq\<lparr>kq_iocp := iocp, kq_synthetic_event := sem\<rparr>))\<rparr>,
              [Evt_destroy (kq_loop kq)])
      else (0, kq\<lparr>kq_iocp := iocp, kq_synthetic_event := sem,
                   kq_filt := snd (reg (kq\<lparr>kq_iocp := iocp, kq_synthetic_event := sem\<rparr>))\<rparr>, []))"
  by (simp add: windows_kqueue_init_def Let_def split: prod.splits)

lemmas example_defs = example_kq_def example_buf_def example_kn_def example_filters_def kevent_zero_def

lemmas copyout_eval = windows_kevent_copyout_def deref_def owning_filter_def filter_index_def
  first_slot_def knote_disable_def knote_delete_def EV_DISPATCH_def EV_ONESHOT_def Let_def

section \<open>The wait phase\<close>

text \<open>
  Claim C1. The blocking duration of the wait is to equal \<open>tv_sec\<close> seconds plus
  \<open>tv_nsec\<close> nanoseconds, converted to milliseconds. The code divides the seconds by
  1000 instead of multiplying, and tests \<open>tv_sec\<close> where the nanoseconds are added:
  for the timeout of 100 seconds the OS wait is given 0 ms where the claim asks for
  100000 ms, and for half a second (\<open>tv_sec = 0\<close>, \<open>tv_nsec = 500000000\<close>) it is
  given 0 ms where the claim asks for 500 ms. With an OS that has an event only for a
  wait longer than 0 ms, the call with 100 seconds returns 0 at once.
\<close>

theorem timeout_to_ms_loses_seconds:
  "timeout_to_ms (Some \<lparr>tv_sec = 100, tv_nsec = 0\<rparr>) = 0
   \<and> spec_timeout_ms \<lparr>tv_sec = 100, tv_nsec = 0\<rparr> = 100000
   \<and> timeout_to_ms (Some \<lparr>tv_sec = 0, tv_nsec = 500000000\<rparr>) = 0
   \<and> spec_timeout_ms \<lparr>tv_sec = 0, tv_nsec = 500000000\<rparr> = 500
   \<and> fst (windows_kevent_wait (\<lambda>h ms. \<lparr>success = (ms \<noteq> 0), packet = event_buf_zero,
                                         last_error = WAIT_TIMEOUT\<rparr>)
             (example_kq 0) 1 (Some \<lparr>tv_sec = 100, tv_nsec = 0\<rparr>)) = 0"
  by (simp add: timeout_to_ms_def spec_timeout_ms_def windows_kevent_wait_def Let_def)

section \<open>The copyout phase\<close>

text \<open>
  Claim C2, as stated, at a concrete kqueue: the claim has a knote that carries
  \<open>EV_ONESHOT\<close> deleted and one that carries \<open>EV_DISPATCH\<close> disabled after a
  delivery, and at most one event from an \<open>EV_ONESHOT\<close> knote. The knote of
  \<open>bare_kq\<close> carries both flags; its filter delivers the event with the flags
  cleared. The event is delivered, the knote stays in the store, enabled, and two
  wakes deliver two events.
\<close>

theorem oneshot_knote_delivered_twice:
  "carries EV_ONESHOT (example_kn (-1)) \<and> carries EV_DISPATCH (example_kn (-1))
   \<and> deref bare_kq (overlap example_buf) = Some (example_kn (-1))
   \<and> windows_kevent_copyout bare_kq example_buf 1 [kevent_zero] 1
       = Inr (1, [(kev (example_kn (-1)))\<lparr>flags := 0\<rparr>], bare_kq)
   \<and> kn_enabled (example_kn (-1))
   \<and> deliveries (overlap example_buf) bare_kq
        [(example_buf, [kevent_zero]), (example_buf, [kevent_zero])] = 2"
proof -
  have c: "windows_kevent_copyout bare_kq example_buf 1 [kevent_zero] 1
       = Inr (1, [(kev (example_kn (-1)))\<lparr>flags := 0\<rparr>], bare_kq)"
    by (simp add: copyout_eval bare_kq_def example_defs)
  have d: "deref bare_kq (overlap example_buf) = Some (example_kn (-1))"
    by (simp add: deref_def bare_kq_def example_buf_def)
  have f: "carries EV_ONESHOT (example_kn (-1)) \<and> carries EV_DISPATCH (example_kn (-1))
      \<and> kn_enabled (example_kn (-1))"
    by (simp add: carries_def example_kn_def EV_DISPATCH_def EV_ONESHOT_def)
  from c d f show ?thesis by simp
qed

text \<open>
  Claim C2, amended. The copyout consults the flags of the delivered event, the first
  slot of the event list as the filter's copyout wrote it, and not the flags of the
  knote. For every event delivered (return value 1): if the delivered event carries
  \<open>EV_ONESHOT\<close> the knote is deleted, it is no longer in the store when the copyout
  returns; otherwise, if the delivered event carries \<open>EV_DISPATCH\<close>, the knote is in
  the store, disabled; otherwise the knote is in the store as the filter left it. The
  other knotes of the store are untouched.
\<close>

theorem delivered_event_flags_decide:
  assumes "windows_kevent_copyout kq b nready evl nevents = Inr (1, evl', kq')"
  shows "\<exists>kn filt rv ev kn' rest.
           deref kq (overlap b) = Some kn \<and> owning_filter kq kn = Some filt \<and>
           kf_copyout filt (first_slot evl) kn b = (rv, ev, kn') \<and> evl' = ev # rest \<and>
           deref kq' (overlap b) =
             (if flags ev AND EV_ONESHOT \<noteq> 0 then None
              else if flags ev AND EV_DISPATCH \<noteq> 0 then Some (kn'\<lparr>kn_enabled := False\<rparr>)
              else Some kn') \<and>
           (\<forall>q. q \<noteq> overlap b \<longrightarrow> deref kq' q = deref kq q)"
proof -
  let ?p = "overlap b"
  from assms obtain kn filt slot rest rv ev kn' where
    kn: "deref kq ?p = Some kn" and filt: "owning_filter kq kn = Some filt"
    and evl: "evl = slot # rest"
    and c: "kf_copyout filt (Some slot) kn b = (rv, ev, kn')"
    and evl': "evl' = ev # rest"
    and kq': "kq' = after_flags ev ?p (kq\<lparr>kq_knotes := (kq_knotes kq)(?p \<mapsto> kn')\<rparr>)"
    by (rule copyout_InrE)
  have p0: "?p \<noteq> 0" using kn by (auto simp: deref_def split: if_splits)
  let ?kq1 = "kq\<lparr>kq_knotes := (kq_knotes kq)(?p \<mapsto> kn')\<rparr>"
  have st: "kq_knotes ?kq1 ?p = Some kn'" by simp
  have self: "deref kq' ?p =
             (if flags ev AND EV_ONESHOT \<noteq> 0 then None
              else if flags ev AND EV_DISPATCH \<noteq> 0 then Some (kn'\<lparr>kn_enabled := False\<rparr>)
              else Some kn')"
    using p0 by (simp add: deref_def kq' after_flags_self [OF st])
  have other: "\<forall>q. q \<noteq> ?p \<longrightarrow> deref kq' q = deref kq q"
    by (simp add: deref_def kq' after_flags_other)
  from c have c': "kf_copyout filt (first_slot evl) kn b = (rv, ev, kn')"
    by (simp add: evl first_slot_def)
  from kn filt c' evl' self other show ?thesis by blast
qed

theorem delivered_event_flags_decide_witness:
  "windows_kevent_copyout (example_kq (-1)) example_buf 1 [kevent_zero] 1
       = Inr (1, [kev (example_kn (-1))], (example_kq (-1))\<lparr>kq_knotes := Map.empty\<rparr>)
   \<and> flags (kev (example_kn (-1))) AND EV_ONESHOT \<noteq> 0
   \<and> deref ((example_kq (-1))\<lparr>kq_knotes := Map.empty\<rparr>) (overlap example_buf) = None
   \<and> windows_kevent_copyout dispatch_kq example_buf 1 [kevent_zero] 1
       = Inr (1, [kev dispatch_kn],
              dispatch_kq\<lparr>kq_knotes := [1 \<mapsto> dispatch_kn\<lparr>kn_enabled := False\<rparr>]\<rparr>)
   \<and> flags (kev dispatch_kn) AND EV_ONESHOT = 0 \<and> flags (kev dispatch_kn) AND EV_DISPATCH \<noteq> 0
   \<and> deref (dispatch_kq\<lparr>kq_knotes := [1 \<mapsto> dispatch_kn\<lparr>kn_enabled := False\<rparr>]\<rparr>)
         (overlap example_buf) = Some (dispatch_kn\<lparr>kn_enabled := False\<rparr>)
   \<and> (\<exists>kn filt rv ev kn' rest.
         deref dispatch_kq (overlap example_buf) = Some kn \<and> owning_filter dispatch_kq kn = Some filt \<and>
         kf_copyout filt (first_slot [kevent_zero]) kn example_buf = (rv, ev, kn') \<and>
         [kev dispatch_kn] = ev # rest)"
proof -
  have c: "windows_kevent_copyout (example_kq (-1)) example_buf 1 [kevent_zero] 1
       = Inr (1, [kev (example_kn (-1))], (example_kq (-1))\<lparr>kq_knotes := Map.empty\<rparr>)"
    by (simp add: copyout_eval example_defs)
  have f: "flags (kev (example_kn (-1))) AND EV_ONESHOT \<noteq> 0"
    by (simp add: example_kn_def EV_ONESHOT_def)
  have g: "deref ((example_kq (-1))\<lparr>kq_knotes := Map.empty\<rparr>) (overlap example_buf) = None"
    by (simp add: deref_def)
  have c': "windows_kevent_copyout dispatch_kq example_buf 1 [kevent_zero] 1
       = Inr (1, [kev dispatch_kn],
              dispatch_kq\<lparr>kq_knotes := [1 \<mapsto> dispatch_kn\<lparr>kn_enabled := False\<rparr>]\<rparr>)"
    by (simp add: copyout_eval dispatch_kq_def dispatch_kn_def example_defs)
  have f': "flags (kev dispatch_kn) AND EV_ONESHOT = 0 \<and> flags (kev dispatch_kn) AND EV_DISPATCH \<noteq> 0"
    by (simp add: dispatch_kn_def EV_DISPATCH_def EV_ONESHOT_def)
  have g': "deref (dispatch_kq\<lparr>kq_knotes := [1 \<mapsto> dispatch_kn\<lparr>kn_enabled := False\<rparr>]\<rparr>)
         (overlap example_buf) = Some (dispatch_kn\<lparr>kn_enabled := False\<rparr>)"
    by (simp add: deref_def example_buf_def)
  from delivered_event_flags_decide [OF c']
  have "\<exists>kn filt rv ev kn' rest.
         deref dispatch_kq (overlap example_buf) = Some kn \<and> owning_filter dispatch_kq kn = Some filt \<and>
         kf_copyout filt (first_slot [kevent_zero]) kn example_buf = (rv, ev, kn') \<and>
         [kev dispatch_kn] = ev # rest"
    by blast
  with c f g c' f' g' show ?thesis by simp
qed

text \<open>
  Claim C4. A wake whose buffer carries no knote pointer is to be suppressed: the
  copyout is to return 0 without an error. The source casts \<open>iocp_buf.overlap\<close> to a
  knote and dereferences it unchecked, so the wake with the \<open>NULL\<close> pointer is a
  fault. A wake whose knote and filter are found and whose filter yields the empty
  event is discarded as claimed: the copyout returns 0.
\<close>

theorem missing_knote_faults:
  "overlap event_buf_zero = 0
   \<and> windows_kevent_copyout (example_kq (-3)) event_buf_zero 1 [kevent_zero] 1 = Inl Fault
   \<and> windows_kevent_copyout (example_kq (-3)) example_buf 1 [kev (example_kn (-1))] 1
       = Inr (0, [kevent_zero], example_kq (-3))"
  by (simp add: copyout_eval example_defs event_buf_zero_def)

text \<open>
  Claim C5. When the filter's copyout returns a negative value, the process is
  aborted: the copyout returns nothing to its caller.
\<close>

theorem copyout_failure_aborts:
  assumes "deref kq (overlap b) = Some kn" and "owning_filter kq kn = Some filt"
    and "kf_copyout filt (first_slot evl) kn b = (rv, ev, kn')" and "rv < 0"
  shows "windows_kevent_copyout kq b nready evl nevents = Inl Abort"
  using assms(4) by (simp add: copyout_call [OF assms(1-3)])

theorem copyout_failure_aborts_witness:
  "deref (example_kq (-2)) (overlap example_buf) = Some (example_kn (-2))
   \<and> owning_filter (example_kq (-2)) (example_kn (-2)) = Some (example_filters ! 1)
   \<and> kf_copyout (example_filters ! 1) (first_slot [kevent_zero]) (example_kn (-2)) example_buf
        = (-1, kevent_zero, example_kn (-2))
   \<and> windows_kevent_copyout (example_kq (-2)) example_buf 1 [kevent_zero] 1 = Inl Abort
   \<and> kf_copyout (example_filters ! 1) (first_slot []) (example_kn (-2)) example_buf
        = (-1, kevent_zero, example_kn (-2))
   \<and> windows_kevent_copyout (example_kq (-2)) example_buf 1 [] 0 = Inl Abort"
proof -
  have d: "deref (example_kq (-2)) (overlap example_buf) = Some (example_kn (-2))"
    by (simp add: deref_def example_defs)
  have f: "owning_filter (example_kq (-2)) (example_kn (-2)) = Some (example_filters ! 1)"
    by (simp add: owning_filter_def filter_index_def example_defs Let_def)
  have c: "kf_copyout (example_filters ! 1) (first_slot [kevent_zero]) (example_kn (-2)) example_buf
        = (-1, kevent_zero, example_kn (-2))"
    by (simp add: example_filters_def first_slot_def)
  have c0: "kf_copyout (example_filters ! 1) (first_slot []) (example_kn (-2)) example_buf
        = (-1, kevent_zero, example_kn (-2))"
    by (simp add: example_filters_def first_slot_def)
  from copyout_failure_aborts [OF d f c, where nready = 1 and nevents = 1]
    copyout_failure_aborts [OF d f c0, where nready = 1 and nevents = 0] d f c c0
  show ?thesis by simp
qed

section \<open>Creating and freeing a kqueue\<close>




text \<open>
  Claim C6. The initialisation returns 0 or -1. It returns -1 exactly when the
  completion port cannot be created, the semaphore for synthetic events cannot be
  created, or the registration of the filter table fails; it returns 0 only with both
  handles set and non-null and the filter table registered. \<open>kqueue()\<close> returns the
  descriptor when the initialisation returned 0 and -1 otherwise.
\<close>

theorem kqueue_init_all_or_nothing:
  "(let r = windows_kqueue_init iocp sem reg kq;
        kq2 = kq\<lparr>kq_iocp := iocp, kq_synthetic_event := sem\<rparr>
    in (fst r = 0 \<or> fst r = -1)
     \<and> (fst r = -1) = (iocp = 0 \<or> sem = 0 \<or> fst (reg kq2) < 0)
     \<and> (fst r = 0) = (iocp \<noteq> 0 \<and> sem \<noteq> 0 \<and> 0 \<le> fst (reg kq2))
     \<and> (fst r = 0 \<longrightarrow>
          kq_iocp (fst (snd r)) = iocp \<and> iocp \<noteq> 0 \<and>
          kq_synthetic_event (fst (snd r)) = sem \<and> sem \<noteq> 0 \<and>
          kq_filt (fst (snd r)) = snd (reg kq2) \<and> 0 \<le> fst (reg kq2))
     \<and> kqueue_call fd iocp sem reg kq = (if fst r = 0 then fd else -1))"
  unfolding kqueue_call_def init_cases Let_def by simp

theorem kqueue_init_all_or_nothing_witness:
  "fst (windows_kqueue_init 3 4 (\<lambda>k. (0, example_filters)) (example_kq 0)) = 0
   \<and> kq_iocp (fst (snd (windows_kqueue_init 3 4 (\<lambda>k. (0, example_filters)) (example_kq 0)))) = 3
   \<and> kq_synthetic_event (fst (snd (windows_kqueue_init 3 4 (\<lambda>k. (0, example_filters)) (example_kq 0)))) = 4
   \<and> kqueue_call 9 3 4 (\<lambda>k. (0, example_filters)) (example_kq 0) = 9
   \<and> fst (windows_kqueue_init 0 4 (\<lambda>k. (0, example_filters)) (example_kq 0)) = -1
   \<and> fst (windows_kqueue_init 3 0 (\<lambda>k. (0, example_filters)) (example_kq 0)) = -1
   \<and> fst (windows_kqueue_init 3 4 (\<lambda>k. (-1, [])) (example_kq 0)) = -1
   \<and> kqueue_call 9 3 4 (\<lambda>k. (-1, [])) (example_kq 0) = -1"
  using kqueue_init_all_or_nothing [of 3 4 "\<lambda>k. (0, example_filters)" "example_kq 0" 9]
    kqueue_init_all_or_nothing [of 0 4 "\<lambda>k. (0, example_filters)" "example_kq 0" 9]
    kqueue_init_all_or_nothing [of 3 0 "\<lambda>k. (0, example_filters)" "example_kq 0" 9]
    kqueue_init_all_or_nothing [of 3 4 "\<lambda>k. (-1, [])" "example_kq 0" 9]
  by (simp add: Let_def)

section \<open>Peer-close detection\<close>




section \<open>The event list and the filter table\<close>

text \<open>
  Claim C9. The result of the copyout does not depend on \<open>nready\<close> and \<open>nevents\<close>.
  Whenever it returns, the return value is 0 or 1, the buffer was not empty, and only
  its first slot may have changed. It does return, with the filter's event in the
  first slot, whenever the knote and its filter are found and the filter's copyout
  does not fail, also with \<open>nevents = 0\<close>.
\<close>

theorem copyout_one_slot:
  "windows_kevent_copyout kq b nready evl nevents = windows_kevent_copyout kq b nready' evl nevents'
   \<and> (windows_kevent_copyout kq b nready evl nevents = Inr (n, evl', kq') \<longrightarrow>
        (n = 0 \<or> n = 1) \<and> evl \<noteq> [] \<and> length evl' = length evl \<and> tl evl' = tl evl)
   \<and> (deref kq (overlap b) = Some kn \<and> owning_filter kq kn = Some filt
        \<and> 0 \<le> fst (kf_copyout filt (Some slot) kn b) \<longrightarrow>
        (\<exists>n kq'. windows_kevent_copyout kq b nready (slot # rest) nevents
            = Inr (n, fst (snd (kf_copyout filt (Some slot) kn b)) # rest, kq')))"
proof -
  have indep: "windows_kevent_copyout kq b nready evl nevents
      = windows_kevent_copyout kq b nready' evl nevents'"
    by (simp add: windows_kevent_copyout_def)
  have ret: "(n = 0 \<or> n = 1) \<and> evl \<noteq> [] \<and> length evl' = length evl \<and> tl evl' = tl evl"
    if "windows_kevent_copyout kq b nready evl nevents = Inr (n, evl', kq')"
    using that by (elim copyout_InrE) simp
  have tot: "\<exists>n kq'. windows_kevent_copyout kq b nready (slot # rest) nevents
            = Inr (n, fst (snd (kf_copyout filt (Some slot) kn b)) # rest, kq')"
    if a: "deref kq (overlap b) = Some kn \<and> owning_filter kq kn = Some filt
        \<and> 0 \<le> fst (kf_copyout filt (Some slot) kn b)"
  proof -
    obtain rv ev kn' where c: "kf_copyout filt (Some slot) kn b = (rv, ev, kn')"
      by (cases "kf_copyout filt (Some slot) kn b") auto
    from a c have "0 \<le> rv" by simp
    then show ?thesis
      using a c by (simp add: copyout_step [where rest = rest and nready = nready and nevents = nevents])
  qed
  from indep ret tot show ?thesis by blast
qed

theorem copyout_one_slot_witness:
  "windows_kevent_copyout (example_kq (-1)) example_buf 5 [kevent_zero, kevent_zero] 0
     = Inr (1, [kev (example_kn (-1)), kevent_zero], (example_kq (-1))\<lparr>kq_knotes := Map.empty\<rparr>)
   \<and> windows_kevent_copyout (example_kq (-1)) example_buf 5 [kevent_zero, kevent_zero] 0
     = windows_kevent_copyout (example_kq (-1)) example_buf 1 [kevent_zero, kevent_zero] 2
   \<and> length [kev (example_kn (-1)), kevent_zero] = length [kevent_zero, kevent_zero]
   \<and> tl [kev (example_kn (-1)), kevent_zero] = tl [kevent_zero, kevent_zero]"
proof -
  have c: "windows_kevent_copyout (example_kq (-1)) example_buf 5 [kevent_zero, kevent_zero] 0
     = Inr (1, [kev (example_kn (-1)), kevent_zero], (example_kq (-1))\<lparr>kq_knotes := Map.empty\<rparr>)"
    by (simp add: copyout_eval example_defs)
  from copyout_one_slot [where kq = "example_kq (-1)" and b = example_buf and nready = 5
      and evl = "[kevent_zero, kevent_zero]" and nevents = 0 and nready' = 1 and nevents' = 2
      and n = 1 and evl' = "[kev (example_kn (-1)), kevent_zero]"
      and kq' = "(example_kq (-1))\<lparr>kq_knotes := Map.empty\<rparr>"] c
  show ?thesis by simp
qed

text \<open>
  Claim C10. The index of a knote's filter in the table is the bitwise complement of
  its filter tag: tag \<open>f\<close> has index \<open>-f-1\<close>, and \<open>EVFILT_READ\<close> has index 0. There
  is a filter at that index exactly for a negative tag whose index is below the length
  of the table; for any other tag of a knote processed at copyout the access is
  outside the table, a fault.
\<close>

theorem owning_filter_index:
  "filter_index f = - f - 1
   \<and> filter_index EVFILT_READ = 0
   \<and> owning_filter kq kn =
       (if filter_tag (kev kn) < 0 \<and> - filter_tag (kev kn) \<le> int (length (kq_filt kq))
        then Some (kq_filt kq ! nat (- filter_tag (kev kn) - 1)) else None)
   \<and> (deref kq (overlap b) = Some kn \<and> owning_filter kq kn = None \<longrightarrow>
        windows_kevent_copyout kq b nready evl nevents = Inl Fault)"
  by (simp add: filter_index_eq EVFILT_READ_def owning_filter_eq [symmetric] windows_kevent_copyout_def)

theorem owning_filter_index_witness:
  "deref (example_kq 1) (overlap example_buf) = Some (example_kn 1)
   \<and> owning_filter (example_kq 1) (example_kn 1) = None
   \<and> windows_kevent_copyout (example_kq 1) example_buf 1 [kevent_zero] 1 = Inl Fault
   \<and> owning_filter (example_kq (-4)) (example_kn (-4)) = None
   \<and> owning_filter (example_kq (-3)) (example_kn (-3)) = Some (example_filters ! 2)
   \<and> owning_filter (example_kq EVFILT_READ) (example_kn EVFILT_READ) = Some (example_filters ! 0)"
proof -
  have d: "deref (example_kq 1) (overlap example_buf) = Some (example_kn 1)"
    by (simp add: deref_def example_defs)
  note t = owning_filter_index [where kq = "example_kq 1" and kn = "example_kn 1" and b = example_buf
        and nready = 1 and evl = "[kevent_zero]" and nevents = 1]
    owning_filter_index [where kq = "example_kq (-4)" and kn = "example_kn (-4)"]
    owning_filter_index [where kq = "example_kq (-3)" and kn = "example_kn (-3)"]
    owning_filter_index [where kq = "example_kq EVFILT_READ" and kn = "example_kn EVFILT_READ"]
  from t d show ?thesis
    by (simp add: example_kq_def example_kn_def example_filters_def EVFILT_READ_def)
qed

end
